theory Spec2Isabelle
  imports Main
begin

section \<open>Entity types and column annotations\<close>

text \<open>
  The repository is built for one struct type, read through \<open>reflect\<close>.  Of a struct field
  the code looks at two things only: the value of its \<open>db\<close> tag (the empty string when the
  tag is absent) and whether its kind is \<open>reflect.Int64\<close>.  An entity type is the list of its
  fields in declaration order, so \<open>elemType.NumField()\<close> is \<open>length\<close> and
  \<open>elemType.Field(i)\<close> is \<open>!\<close> below the length.
\<close>

datatype kind = Int64 | OtherKind

record field =
  dbTag :: string
  fkind :: kind

type_synonym elemType = "field list"

text \<open>\<open>"\""\<close> as a character, for the quoted column names.\<close>

definition dq :: char where
  "dq = CHR 0x22"

text \<open>
  The tag predicates loop over a constant slice and return at the first hit.
\<close>

fun tag_in :: "string \<Rightarrow> string list \<Rightarrow> bool" where
  "tag_in t [] = False"
| "tag_in t (x # xs) = (if t = x then True else tag_in t xs)"

definition emptyTags :: "string list" where
  "emptyTags = ['''', ''-'']"

definition emptyTag :: "string \<Rightarrow> bool" where
  "emptyTag t = tag_in t emptyTags"

definition createdTag :: "string \<Rightarrow> bool" where
  "createdTag t = (if t = ''created_at'' then True else False)"

definition updatedTag :: "string \<Rightarrow> bool" where
  "updatedTag t = (if t = ''updated_at'' then True else False)"

definition readOnlyTags :: "string list" where
  "readOnlyTags =
     [''is_deleted'', ''deleted_at'', ''id'', ''created_at'', ''updated_at'',
      ''topup_method_id'', ''bs_topup_banktransfer_id'', ''bs_topup_virtualaccount_id'',
      ''bs_topup_provider_id'', ''topup_id'', ''topup_recon_matched_id'',
      ''topup_recon_unmatched_id'', ''statement_id'', ''transfer_recon_unmatched_id'',
      ''transfer_recon_matched_id'']"

definition readOnlyTag :: "string \<Rightarrow> bool" where
  "readOnlyTag t = tag_in t readOnlyTags"

text \<open>The test \<open>!readOnlyTag(dbTag) && !emptyTag(dbTag)\<close> that every writer shares.\<close>

definition writable :: "string \<Rightarrow> bool" where
  "writable t = (\<not> readOnlyTag t \<and> \<not> emptyTag t)"

section \<open>The query fragments\<close>

text \<open>\<open>strings.Join\<close>.\<close>

fun Join :: "string list \<Rightarrow> string \<Rightarrow> string" where
  "Join [] sep = ''''"
| "Join [x] sep = x"
| "Join (x # y # ys) sep = x @ sep @ Join (y # ys) sep"

text \<open>
  Each fragment function walks the fields once, appending to \<open>dbFields\<close>; the loop is the
  recursion over the remaining fields, the slice (and the flags) are the accumulators.
  \<open>selectFields_cols\<close> and its siblings are the slices handed to \<open>strings.Join\<close>.
\<close>

fun selectFields_loop :: "elemType \<Rightarrow> string list \<Rightarrow> string list" where
  "selectFields_loop [] dbFields = dbFields"
| "selectFields_loop (f # fs) dbFields =
     selectFields_loop fs
       (if dbTag f \<noteq> '''' \<and> dbTag f \<noteq> ''-'' then dbFields @ [[dq] @ dbTag f @ [dq]]
        else dbFields)"

definition selectFields_cols :: "elemType \<Rightarrow> string list" where
  "selectFields_cols T = selectFields_loop T []"

definition selectFields :: "elemType \<Rightarrow> string" where
  "selectFields T = Join (selectFields_cols T) '', ''"

fun insertFields_loop ::
  "elemType \<Rightarrow> string list \<times> bool \<times> bool \<Rightarrow> string list \<times> bool \<times> bool" where
  "insertFields_loop [] st = st"
| "insertFields_loop (f # fs) (dbFields, createTag, updateTag) =
     insertFields_loop fs
       (if \<not> readOnlyTag (dbTag f) \<and> \<not> emptyTag (dbTag f)
        then dbFields @ [[dq] @ dbTag f @ [dq]] else dbFields,
        if createdTag (dbTag f) then True else createTag,
        if updatedTag (dbTag f) then True else updateTag)"

text \<open>
  \<open>deleteTag\<close> is a local that is set to \<open>false\<close> and never written, so the
  \<open>"deleted_at"\<close> column is never appended.
\<close>

definition insertFields_cols :: "elemType \<Rightarrow> string list" where
  "insertFields_cols T =
     (case insertFields_loop T ([], False, False) of
        (dbFields, createTag, updateTag) \<Rightarrow>
          (let deleteTag = False;
               dbFields = (if createTag then dbFields @ [[dq] @ ''created_at'' @ [dq]] else dbFields);
               dbFields = (if updateTag then dbFields @ [[dq] @ ''updated_at'' @ [dq]] else dbFields);
               dbFields = (if deleteTag then dbFields @ [[dq] @ ''deleted_at'' @ [dq]] else dbFields)
           in dbFields))"

definition insertFields :: "elemType \<Rightarrow> string" where
  "insertFields T = Join (insertFields_cols T) '', ''"

fun insertParams_loop ::
  "elemType \<Rightarrow> string list \<times> bool \<times> bool \<Rightarrow> string list \<times> bool \<times> bool" where
  "insertParams_loop [] st = st"
| "insertParams_loop (f # fs) (dbParams, createTag, updateTag) =
     insertParams_loop fs
       (if \<not> readOnlyTag (dbTag f) \<and> \<not> emptyTag (dbTag f)
        then dbParams @ ['':'' @ dbTag f] else dbParams,
        if createdTag (dbTag f) then True else createTag,
        if updatedTag (dbTag f) then True else updateTag)"

definition insertParams_cols :: "elemType \<Rightarrow> string list" where
  "insertParams_cols T =
     (case insertParams_loop T ([], False, False) of
        (dbParams, createTag, updateTag) \<Rightarrow>
          (let dbParams = (if createTag then dbParams @ ['':created_at''] else dbParams);
               dbParams = (if updateTag then dbParams @ ['':updated_at''] else dbParams)
           in dbParams))"

definition insertParams :: "elemType \<Rightarrow> string" where
  "insertParams T = Join (insertParams_cols T) '', ''"

fun updateSetFields_loop :: "elemType \<Rightarrow> string list \<Rightarrow> string list" where
  "updateSetFields_loop [] setFields = setFields"
| "updateSetFields_loop (f # fs) setFields =
     updateSetFields_loop fs
       (if \<not> readOnlyTag (dbTag f) \<and> \<not> emptyTag (dbTag f)
        then setFields @ [[dq] @ dbTag f @ [dq] @ '' = :'' @ dbTag f] else setFields)"

definition updateSetFields_cols :: "elemType \<Rightarrow> string list" where
  "updateSetFields_cols T =
     updateSetFields_loop T [[dq] @ ''updated_at'' @ [dq] @ '' = :updated_at'']"

definition updateSetFields :: "elemType \<Rightarrow> string" where
  "updateSetFields T = Join (updateSetFields_cols T) '',''"

text \<open>The names the characterisations below are written with.\<close>

definition quoted :: "string \<Rightarrow> string" where
  "quoted t = [dq] @ t @ [dq]"

definition tags :: "elemType \<Rightarrow> string list" where
  "tags T = map dbTag T"

definition writable_tags :: "elemType \<Rightarrow> string list" where
  "writable_tags T = filter writable (tags T)"

definition has_created :: "elemType \<Rightarrow> bool" where
  "has_created T = (''created_at'' \<in> set (tags T))"

definition has_updated :: "elemType \<Rightarrow> bool" where
  "has_updated T = (''updated_at'' \<in> set (tags T))"

definition stamp_tags :: "elemType \<Rightarrow> string list" where
  "stamp_tags T =
     (if has_created T then [''created_at''] else []) @
     (if has_updated T then [''updated_at''] else [])"

text \<open>
  Two column lists keep their shared columns in the same relative order when each,
  cut down to the columns of the other, is the same list.
\<close>

definition same_relative_order :: "string list \<Rightarrow> string list \<Rightarrow> bool" where
  "same_relative_order xs ys =
     (filter (\<lambda>c. c \<in> set ys) xs = filter (\<lambda>c. c \<in> set xs) ys)"

text \<open>The entity of the specification's scenario.\<close>

definition scenario_entity :: elemType where
  "scenario_entity =
     [\<lparr>dbTag = ''id'', fkind = Int64\<rparr>, \<lparr>dbTag = ''name'', fkind = OtherKind\<rparr>,
      \<lparr>dbTag = ''created_at'', fkind = OtherKind\<rparr>, \<lparr>dbTag = ''updated_at'', fkind = OtherKind\<rparr>]"

text \<open>An entity that declares its creation time before an ordinary column.\<close>

definition stamp_first_entity :: elemType where
  "stamp_first_entity =
     [\<lparr>dbTag = ''created_at'', fkind = OtherKind\<rparr>, \<lparr>dbTag = ''name'', fkind = OtherKind\<rparr>]"

section \<open>The Go library functions the code calls\<close>

text \<open>
  \<open>strconv.Itoa\<close>: the decimal digits of an \<open>int\<close>, with a minus sign in front of a
  negative one.
\<close>

function digits :: "nat \<Rightarrow> string" where
  "digits n =
     (if n < 10 then [''0123456789'' ! n]
      else digits (n div 10) @ [''0123456789'' ! (n mod 10)])"
  by pat_completeness auto
termination
  by (relation "measure id") auto

definition Itoa :: "int \<Rightarrow> string" where
  "Itoa i = (if i < 0 then ''-'' @ digits (nat (- i)) else digits (nat i))"

text \<open>\<open>strings.HasSuffix\<close> and \<open>strings.TrimSuffix\<close>.\<close>

definition HasSuffix :: "string \<Rightarrow> string \<Rightarrow> bool" where
  "HasSuffix s suf =
     (length s \<ge> length suf \<and> drop (length s - length suf) s = suf)"

definition TrimSuffix :: "string \<Rightarrow> string \<Rightarrow> string" where
  "TrimSuffix s suf = (if HasSuffix s suf then take (length s - length suf) s else s)"


text \<open>
  \<open>strings.TrimSpace\<close> removes the leading and the trailing white space, as
  \<open>unicode.IsSpace\<close> defines it.  A Go string is a byte sequence, read as UTF-8 here,
  so a white-space rune is one of these byte sequences: the six ASCII ones, U+0085,
  U+00A0, U+1680, U+2000 to U+200A, U+2028, U+2029, U+202F, U+205F and U+3000.
\<close>

definition spaceRunes :: "string list" where
  "spaceRunes =
     map (\<lambda>c. [c]) [CHR 0x09, CHR 0x0A, CHR 0x0B, CHR 0x0C, CHR 0x0D, CHR 0x20] @
     [[CHR 0xC2, CHR 0x85], [CHR 0xC2, CHR 0xA0], [CHR 0xE1, CHR 0x9A, CHR 0x80]] @
     map (\<lambda>c. [CHR 0xE2, CHR 0x80, c])
       [CHR 0x80, CHR 0x81, CHR 0x82, CHR 0x83, CHR 0x84, CHR 0x85, CHR 0x86, CHR 0x87,
        CHR 0x88, CHR 0x89, CHR 0x8A, CHR 0xA8, CHR 0xA9, CHR 0xAF] @
     [[CHR 0xE2, CHR 0x81, CHR 0x9F], [CHR 0xE3, CHR 0x80, CHR 0x80]]"

text \<open>
  The width in bytes of the white-space rune a string starts with (ends with), and
  \<open>0\<close> when it starts (ends) with none.
\<close>

fun space_width :: "string list \<Rightarrow> string \<Rightarrow> nat" where
  "space_width [] s = 0"
| "space_width (p # ps) s = (if take (length p) s = p then length p else space_width ps s)"

fun space_width_end :: "string list \<Rightarrow> string \<Rightarrow> nat" where
  "space_width_end [] s = 0"
| "space_width_end (p # ps) s =
     (if HasSuffix s p then length p else space_width_end ps s)"

lemma space_width_le: "space_width ps s \<le> length s"
  by (induction ps) (auto, metis length_take min.cobounded1)

lemma space_width_end_le: "space_width_end ps s \<le> length s"
  by (induction ps) (auto simp: HasSuffix_def)

function trimLeft :: "string \<Rightarrow> string" where
  "trimLeft s =
     (let n = space_width spaceRunes s in if n = 0 then s else trimLeft (drop n s))"
  by pat_completeness auto
termination
proof (relation "measure length")
  show "wf (measure length)" by simp
next
  fix s :: string and n
  assume n: "n = space_width spaceRunes s" and "n \<noteq> 0"
  moreover have "n \<le> length s" using n space_width_le by simp
  ultimately show "(drop n s, s) \<in> measure length" by simp
qed

function trimRight :: "string \<Rightarrow> string" where
  "trimRight s =
     (let n = space_width_end spaceRunes s in
      if n = 0 then s else trimRight (take (length s - n) s))"
  by pat_completeness auto
termination
proof (relation "measure length")
  show "wf (measure length)" by simp
next
  fix s :: string and n
  assume n: "n = space_width_end spaceRunes s" and "n \<noteq> 0"
  moreover have "n \<le> length s" using n space_width_end_le by simp
  ultimately show "(take (length s - n) s, s) \<in> measure length" by simp
qed









section \<open>Values\<close>

text \<open>
  What travels in an \<open>interface{}\<close>.  The code passes a value on to the driver or prints
  it with \<open>fmt.Sprintf("%s", v)\<close>, nothing else, so a value of a type that is not
  singled out here is identified by what \<open>%s\<close> prints for it, and so is a
  \<open>time.Time\<close> (by its \<open>String\<close> method).
\<close>

datatype val =
    VNil
  | VString string
  | VInt int
  | VInt64 int
  | VTime string
  | VOther string


section \<open>The statement template and the integer coercion\<close>

text \<open>
  \<open>writeStmt\<close>: the inner loop writes the placeholders of row \<open>i\<close>, the outer loop the
  rows, each closed with \<open>"),"\<close>; the last comma is trimmed at the end.  The counters
  are Go \<open>int\<close>s; they stay far below \<open>2^63\<close> for any statement that fits in memory,
  so they are unbounded integers here.
\<close>

function writeStmt_cols :: "int \<Rightarrow> int \<Rightarrow> int \<Rightarrow> string \<Rightarrow> string" where
  "writeStmt_cols i numFields k str =
     (if k < numFields then
        writeStmt_cols i numFields (k + 1)
          (if k \<noteq> numFields - 1 then str @ (''$'' @ Itoa ((i * numFields) + k + 1) @ '','')
           else str @ (''$'' @ Itoa ((i * numFields) + k + 1)))
      else str)"
  by pat_completeness auto
termination
  by (relation "measure (\<lambda>(i, numFields, k, str). nat (numFields - k))") auto

function writeStmt_rows :: "int \<Rightarrow> int \<Rightarrow> int \<Rightarrow> string \<Rightarrow> string" where
  "writeStmt_rows rowPerInsert numFields i str =
     (if i < rowPerInsert then
        writeStmt_rows rowPerInsert numFields (i + 1)
          (writeStmt_cols i numFields 0 (str @ ''('') @ ''),'')
      else str)"
  by pat_completeness auto
termination
  by (relation "measure (\<lambda>(rowPerInsert, numFields, i, str). nat (rowPerInsert - i))") auto

definition writeStmt :: "int \<Rightarrow> int \<Rightarrow> string \<Rightarrow> string" where
  "writeStmt rowPerInsert numFields stmt =
     TrimSuffix (writeStmt_rows rowPerInsert numFields 0 stmt) '',''"

text \<open>
  The template as the specification words it: the prefix, then \<open>W\<close> row groups joined by
  commas, the group of row \<open>i\<close> holding the placeholders \<open>$(i*C+k+1)\<close> for
  \<open>k = 0, ..., C-1\<close>, joined by commas, in parentheses.
\<close>

definition placeholder :: "nat \<Rightarrow> nat \<Rightarrow> nat \<Rightarrow> string" where
  "placeholder C i k = ''$'' @ Itoa (int (i * C + k + 1))"

definition row_group :: "nat \<Rightarrow> nat \<Rightarrow> string" where
  "row_group C i = ''('' @ Join (map (placeholder C i) [0..<C]) '','' @ '')''"

definition stmt_template :: "nat \<Rightarrow> nat \<Rightarrow> string \<Rightarrow> string" where
  "stmt_template W C prefix = prefix @ Join (map (row_group C) [0..<W]) '',''"


declare digits.simps [simp del] trimLeft.simps [simp del] trimRight.simps [simp del]
  writeStmt_cols.simps [simp del] writeStmt_rows.simps [simp del]

section \<open>The driver, the context and the repository\<close>

text \<open>
  The database is reached through the \<open>Queryer\<close> interface only: the shared pool
  (\<open>*sqlx.DB\<close>) or a transaction handle (\<open>*sqlx.Tx\<close>).  Every call to the driver is a
  request; what the driver answers is not the repository's code, so it is a parameter:
  a \<open>driver\<close> answers a request given everything that was asked and answered before.
  The functions below thread that log, so the statements that were issued, in order,
  and their results can be read off it.  A prepared statement is identified by the
  queryer and the SQL it was prepared with.  The destinations that \<open>Get\<close> and \<open>Select\<close>
  fill are not modelled: of these calls the code looks at the error only.
\<close>

type_synonym error = string

datatype queryer = Pool | Tx nat

record rows =
  columns :: "error + string list"
  steps :: "(error option \<times> (error + val list)) list"

datatype request =
    Prepare queryer string
  | PrepareNamed queryer string
  | StmtExec queryer string "val list"
  | NamedExec queryer string val
  | NamedGet queryer string val
  | NamedSelect queryer string val
  | Queryx queryer string "val list"
  | QueryxArray queryer string val
  | Beginx
  | Commit nat
  | Rollback nat

datatype reply =
    Err "error option"
  | Affected "error + (error + int)"
  | Cursor "error + rows"
  | Begun "error + nat"

type_synonym log = "(request \<times> reply) list"

text \<open>
  \<open>answer\<close>: the error of a call that returns nothing else the code reads.
  \<open>execute\<close>: \<open>query.Exec(bindValues...)\<close> followed by \<open>res.RowsAffected()\<close>; \<open>Inl\<close> is the
  error of \<open>Exec\<close>, \<open>Inr (Inl e)\<close> the error of \<open>RowsAffected\<close>.
  \<open>query\<close>: \<open>Queryx\<close>; the cursor gives its columns and, for each \<open>rows.Next()\<close> that is
  true, what \<open>rows.Err()\<close> and \<open>rows.Scan\<close> give.  \<open>beginx\<close>: \<open>db.Beginx()\<close>.
\<close>

record driver =
  answer :: "log \<Rightarrow> request \<Rightarrow> error option"
  execute :: "log \<Rightarrow> request \<Rightarrow> error + (error + int)"
  query :: "log \<Rightarrow> request \<Rightarrow> error + rows"
  beginx :: "log \<Rightarrow> error + nat"

definition call :: "driver \<Rightarrow> log \<Rightarrow> request \<Rightarrow> error option \<times> log" where
  "call drv h req = (let e = answer drv h req in (e, h @ [(req, Err e)]))"

text \<open>
  What a Go call comes to: it returns, or it panics.
\<close>

datatype 'a outcome = Returns 'a | Panics string

text \<open>
  The context carries at most one value under \<open>TXCONTEXTKEY\<close>; \<open>txdb\<close> is that value when
  it is a \<open>Queryer\<close>.  \<open>txFromContext\<close> returns it with \<open>ok\<close>; \<open>None\<close> is \<open>ok = false\<close>.
\<close>

record Context =
  txdb :: "queryer option"

definition newContext :: "Context \<Rightarrow> queryer \<Rightarrow> Context" where
  "newContext ctx q = ctx\<lparr>txdb := Some q\<rparr>"

definition txFromContext :: "Context \<Rightarrow> queryer option" where
  "txFromContext ctx = txdb ctx"

record PostgresRepository =
  r_db :: queryer
  r_tableName :: string
  r_elemType :: elemType
  r_selectFields :: string
  r_insertFields :: string
  r_insertParams :: string
  r_updateSetFields :: string

definition NewPostgresRepository :: "queryer \<Rightarrow> string \<Rightarrow> elemType \<Rightarrow> PostgresRepository" where
  "NewPostgresRepository db tableName elemType =
     \<lparr>r_db = db, r_tableName = tableName, r_elemType = elemType,
      r_selectFields = selectFields elemType,
      r_insertFields = insertFields elemType,
      r_insertParams = insertParams elemType,
      r_updateSetFields = updateSetFields elemType\<rparr>"

section \<open>The read operations and the permanent delete\<close>

text \<open>
  Each operation starts from \<open>r.db\<close> and an empty \<open>forUpdate\<close> and overwrites both when
  the context carries a transaction.  \<open>resolve\<close> is that shared opening, with the
  suffix the operation assigns in the branch as its argument.
\<close>

definition resolve :: "PostgresRepository \<Rightarrow> Context \<Rightarrow> string \<Rightarrow> queryer \<times> string" where
  "resolve r ctx lock =
     (case txFromContext ctx of
        Some tx \<Rightarrow> (tx, lock)
      | None \<Rightarrow> (r_db r, ''''))"

definition Single ::
  "driver \<Rightarrow> PostgresRepository \<Rightarrow> Context \<Rightarrow> string \<Rightarrow> val \<Rightarrow> log \<Rightarrow> error option \<times> log" where
  "Single drv r ctx whr arg h =
     (case resolve r ctx '' FOR UPDATE'' of
        (db, forUpdate) \<Rightarrow>
          (let sql = ''SELECT '' @ r_selectFields r @ '' FROM '' @ r_tableName r @
                     '' WHERE '' @ whr @ '' '' @ forUpdate @ '' LIMIT 1''
           in case call drv h (PrepareNamed db sql) of
                (Some err, h1) \<Rightarrow> (Some err, h1)
              | (None, h1) \<Rightarrow> call drv h1 (NamedGet db sql arg)))"

definition SelectAll ::
  "driver \<Rightarrow> PostgresRepository \<Rightarrow> Context \<Rightarrow> string \<Rightarrow> string \<Rightarrow> val \<Rightarrow> log
     \<Rightarrow> error option \<times> log" where
  "SelectAll drv r ctx orderBy0 limit arg h =
     (case resolve r ctx '' FOR UPDATE'' of
        (db, forUpdate) \<Rightarrow>
          (let orderBy = (if orderBy0 = '''' then ''ID'' else orderBy0);
               sql = ''SELECT '' @ r_selectFields r @ '' FROM '' @ r_tableName r @
                     '' ORDER BY '' @ orderBy @ '' LIMIT '' @ limit @ '' '' @ forUpdate
           in case call drv h (PrepareNamed db sql) of
                (Some err, h1) \<Rightarrow> (Some err, h1)
              | (None, h1) \<Rightarrow> call drv h1 (NamedSelect db sql arg)))"

definition Where ::
  "driver \<Rightarrow> PostgresRepository \<Rightarrow> Context \<Rightarrow> string \<Rightarrow> val \<Rightarrow> log \<Rightarrow> error option \<times> log" where
  "Where drv r ctx whr arg h =
     (case resolve r ctx '' FOR UPDATE'' of
        (db, forUpdate) \<Rightarrow>
          (let sql = ''SELECT '' @ r_selectFields r @ '' FROM '' @ r_tableName r @
                     '' WHERE '' @ whr @ forUpdate
           in case call drv h (PrepareNamed db sql) of
                (Some err, h1) \<Rightarrow> (Some err, h1)
              | (None, h1) \<Rightarrow> call drv h1 (NamedSelect db sql arg)))"

text \<open>
  The loop of \<open>CustomQuery\<close> and \<open>CustomAnyQuery\<close> over the cursor: one row of the
  payload for each step, the first error ends it.
\<close>

fun scan_rows ::
  "(error option \<times> (error + val list)) list \<Rightarrow> val list list \<Rightarrow> error + val list list" where
  "scan_rows [] payload = Inr payload"
| "scan_rows ((Some err, scanned) # rest) payload = Inl err"
| "scan_rows ((None, Inl err) # rest) payload = Inl err"
| "scan_rows ((None, Inr m) # rest) payload = scan_rows rest (payload @ [m])"

definition read_cursor :: "error + rows \<Rightarrow> error + val list list" where
  "read_cursor res =
     (case res of
        Inl err \<Rightarrow> Inl err
      | Inr rs \<Rightarrow>
          (case columns rs of
             Inl err \<Rightarrow> Inl err
           | Inr cols \<Rightarrow> scan_rows (steps rs) []))"

text \<open>In \<open>CustomQuery\<close> the transaction branch assigns \<open>forUpdate = ""\<close>.\<close>

definition CustomQuery ::
  "driver \<Rightarrow> PostgresRepository \<Rightarrow> Context \<Rightarrow> string \<Rightarrow> val list \<Rightarrow> log
     \<Rightarrow> (error + val list list) \<times> log" where
  "CustomQuery drv r ctx stmt arg h =
     (case resolve r ctx '''' of
        (db, forUpdate) \<Rightarrow>
          (let req = Queryx db (stmt @ forUpdate) arg;
               res = query drv h req
           in (read_cursor res, h @ [(req, Cursor res)])))"

definition CustomAnyQuery ::
  "driver \<Rightarrow> PostgresRepository \<Rightarrow> Context \<Rightarrow> string \<Rightarrow> val \<Rightarrow> log
     \<Rightarrow> (error + val list list) \<times> log" where
  "CustomAnyQuery drv r ctx stmt arg h =
     (case resolve r ctx '' FOR UPDATE'' of
        (db, forUpdate) \<Rightarrow>
          (let req = QueryxArray db (stmt @ forUpdate) arg;
               res = query drv h req
           in (read_cursor res, h @ [(req, Cursor res)])))"

text \<open>
  \<open>PermanentDelete\<close>: the format string of the statement starts with a line break and
  two tabs.
\<close>

definition PermanentDelete ::
  "driver \<Rightarrow> PostgresRepository \<Rightarrow> Context \<Rightarrow> string \<Rightarrow> val \<Rightarrow> log \<Rightarrow> error option \<times> log" where
  "PermanentDelete drv r ctx whr arg h =
     (case resolve r ctx '''' of
        (db, _) \<Rightarrow>
          if arg = VNil then (Some ''There Must be Where condition for Deletion Process'', h)
          else (let sql = [CHR 0x0A, CHR 0x09, CHR 0x09] @ ''DELETE FROM '' @ r_tableName r @
                          '' WHERE '' @ whr
                in case call drv h (PrepareNamed db sql) of
                     (Some err, h1) \<Rightarrow> (Some err, h1)
                   | (None, h1) \<Rightarrow> call drv h1 (NamedExec db sql arg)))"

text \<open>The requests a call issued: those the log gained.\<close>

definition issued :: "log \<Rightarrow> log \<Rightarrow> request list" where
  "issued h h' = map fst (drop (length h) h')"

section \<open>The transaction manager\<close>

text \<open>
  \<open>RunInTransaction\<close> declares its result unnamed (\<open>error\<close>) and keeps \<open>err\<close> as a local
  variable.  \<open>return err\<close> stores the value of \<open>err\<close> as the result and then runs the
  deferred function, which reads and writes the variable \<open>err\<close>, not the result.  The
  unit of work \<open>f\<close> gets the new context and the log, and returns an error or panics;
  the value \<open>Rollback\<close> returns is dropped.
\<close>

definition RunInTransaction ::
  "driver \<Rightarrow> Context \<Rightarrow> (Context \<Rightarrow> log \<Rightarrow> error option outcome \<times> log) \<Rightarrow> log
     \<Rightarrow> error option outcome \<times> log" where
  "RunInTransaction drv ctx f h =
     (let b = beginx drv h; h1 = h @ [(Beginx, Begun b)]
      in case b of
           Inl err \<Rightarrow> (Returns (Some err), h1)
         | Inr tx \<Rightarrow>
             (case f (newContext ctx (Tx tx)) h1 of
                (Panics p, h2) \<Rightarrow> (Panics p, snd (call drv h2 (Rollback tx)))
              | (Returns err, h2) \<Rightarrow>
                  (let result = err
                   in if err \<noteq> None then (Returns result, snd (call drv h2 (Rollback tx)))
                      else (case call drv h2 (Commit tx) of
                              (err, h3) \<Rightarrow> (Returns result, h3)))))"

section \<open>Bulk insert\<close>

definition rowPerInsert :: int where
  "rowPerInsert = 100"





text \<open>
  The variables of \<open>InsertBulkBase\<close> that its loops change, and the log.
\<close>

record bulk =
  bindValues :: "val list"
  createTag :: bool
  updateTag :: bool
  count :: int
  trace :: log


















text \<open>The row counts of the batches of \<open>N\<close> elements: full ones, then the remainder.\<close>

definition batches :: "nat \<Rightarrow> nat list" where
  "batches N = replicate (N div 100) 100 @ (if N mod 100 = 0 then [] else [N mod 100])"



text \<open>
  The router as the specification words it: the executor is the transaction handle
  when the context carries one and the pool otherwise; the locking suffix is
  \<open>FOR UPDATE\<close> in the first case and empty in the second.
\<close>

definition executor :: "PostgresRepository \<Rightarrow> Context \<Rightarrow> queryer" where
  "executor r ctx = (case txFromContext ctx of Some tx \<Rightarrow> tx | None \<Rightarrow> r_db r)"

definition lockingSuffix :: "Context \<Rightarrow> string" where
  "lockingSuffix ctx = (case txFromContext ctx of Some tx \<Rightarrow> '' FOR UPDATE'' | None \<Rightarrow> '''')"

text \<open>
  A driver whose \<open>Commit\<close> fails and that accepts everything else, and a unit of work
  that does nothing and returns \<open>nil\<close>.
\<close>

definition commit_fails :: driver where
  "commit_fails =
     \<lparr>answer = (\<lambda>h req. case req of Commit tx \<Rightarrow> Some ''commit failed'' | _ \<Rightarrow> None),
      execute = (\<lambda>h req. Inr (Inr 0)),
      query = (\<lambda>h req. Inl ''no rows''),
      beginx = (\<lambda>h. Inr 1)\<rparr>"

definition idle_work :: "Context \<Rightarrow> log \<Rightarrow> error option outcome \<times> log" where
  "idle_work tctx h = (Returns None, h)"














definition empty_bulk :: bulk where
  "empty_bulk =
     \<lparr>bindValues = [], createTag = False, updateTag = False, count = 0, trace = []\<rparr>"









section \<open>Facts about the fragments\<close>

lemma tag_in_set: "tag_in t xs = (t \<in> set xs)"
  by (induction xs) auto

lemma created_not_writable: "\<not> writable ''created_at''"
  by (simp add: writable_def readOnlyTag_def readOnlyTags_def)

lemma updated_not_writable: "\<not> writable ''updated_at''"
  by (simp add: writable_def readOnlyTag_def readOnlyTags_def)

lemma created_not_empty: "\<not> emptyTag ''created_at''"
  by (simp add: emptyTag_def emptyTags_def)

lemma updated_not_empty: "\<not> emptyTag ''updated_at''"
  by (simp add: emptyTag_def emptyTags_def)

lemma emptyTag_iff: "emptyTag t = (t = '''' \<or> t = ''-'')"
  by (auto simp: emptyTag_def emptyTags_def)

lemma selectFields_loop_eq:
  "selectFields_loop T acc = acc @ map quoted (filter (\<lambda>t. \<not> emptyTag t) (tags T))"
  by (induction T arbitrary: acc) (auto simp: tags_def quoted_def emptyTag_iff)

lemma insertFields_loop_eq:
  "insertFields_loop T (acc, c, u) =
     (acc @ map quoted (writable_tags T), c \<or> has_created T, u \<or> has_updated T)"
  by (induction T arbitrary: acc c u)
     (auto simp: tags_def quoted_def writable_tags_def writable_def has_created_def
        has_updated_def createdTag_def updatedTag_def)

lemma insertParams_loop_eq:
  "insertParams_loop T (acc, c, u) =
     (acc @ map (\<lambda>t. '':'' @ t) (writable_tags T), c \<or> has_created T, u \<or> has_updated T)"
  by (induction T arbitrary: acc c u)
     (auto simp: tags_def writable_tags_def writable_def has_created_def
        has_updated_def createdTag_def updatedTag_def)

lemma updateSetFields_loop_eq:
  "updateSetFields_loop T acc =
     acc @ map (\<lambda>t. quoted t @ '' = :'' @ t) (writable_tags T)"
  by (induction T arbitrary: acc)
     (auto simp: tags_def quoted_def writable_tags_def writable_def)

lemma selectFields_cols_eq:
  "selectFields_cols T = map quoted (filter (\<lambda>t. \<not> emptyTag t) (tags T))"
  by (simp add: selectFields_cols_def selectFields_loop_eq)

lemma insertFields_cols_eq:
  "insertFields_cols T = map quoted (writable_tags T @ stamp_tags T)"
  by (simp add: insertFields_cols_def insertFields_loop_eq stamp_tags_def quoted_def)

lemma insertParams_cols_eq:
  "insertParams_cols T = map (\<lambda>t. '':'' @ t) (writable_tags T @ stamp_tags T)"
  by (simp add: insertParams_cols_def insertParams_loop_eq stamp_tags_def)

lemma updateSetFields_cols_eq:
  "updateSetFields_cols T =
     map (\<lambda>t. quoted t @ '' = :'' @ t) (''updated_at'' # writable_tags T)"
  by (simp add: updateSetFields_cols_def updateSetFields_loop_eq quoted_def)

lemma count_le_length_filter:
  "length (filter writable ts) + length (filter (\<lambda>t. t = ''created_at'') ts)
     + length (filter (\<lambda>t. t = ''updated_at'') ts)
   \<le> length (filter (\<lambda>t. \<not> emptyTag t) ts)"
proof (induction ts)
  case Nil
  show ?case by simp
next
  case (Cons t ts)
  consider "t = ''created_at''" | "t = ''updated_at''"
    | "t \<noteq> ''created_at''" "t \<noteq> ''updated_at''" by blast
  then show ?case
  proof cases
    case 1
    with Cons show ?thesis using created_not_writable created_not_empty by simp
  next
    case 2
    with Cons show ?thesis using updated_not_writable updated_not_empty by simp
  next
    case 3
    with Cons show ?thesis by (simp add: writable_def)
  qed
qed

lemma member_filter_eq: "x \<in> set ts \<Longrightarrow> 1 \<le> length (filter (\<lambda>t. t = x) ts)"
  by (induction ts) auto

lemma length_stamp_tags:
  "length (stamp_tags T) \<le>
     length (filter (\<lambda>t. t = ''created_at'') (tags T))
       + length (filter (\<lambda>t. t = ''updated_at'') (tags T))"
  using member_filter_eq[of "''created_at''" "tags T"]
    member_filter_eq[of "''updated_at''" "tags T"]
  by (auto simp: stamp_tags_def has_created_def has_updated_def)

lemma length_insert_le_select:
  "length (insertFields_cols T) \<le> length (selectFields_cols T)"
proof -
  have "length (insertFields_cols T) = length (writable_tags T) + length (stamp_tags T)"
    by (simp add: insertFields_cols_eq)
  also have "\<dots> \<le> length (filter writable (tags T))
      + length (filter (\<lambda>t. t = ''created_at'') (tags T))
      + length (filter (\<lambda>t. t = ''updated_at'') (tags T))"
    using length_stamp_tags[of T] by (simp add: writable_tags_def)
  also have "\<dots> \<le> length (filter (\<lambda>t. \<not> emptyTag t) (tags T))"
    by (rule count_le_length_filter)
  finally show ?thesis by (simp add: selectFields_cols_eq)
qed

lemma quoted_inj: "quoted a = quoted b \<Longrightarrow> a = b"
  by (simp add: quoted_def)

lemma filter_select_writable:
  "filter (\<lambda>c. c \<in> quoted ` set (writable_tags T)) (selectFields_cols T) =
     map quoted (writable_tags T)"
proof -
  have iff: "\<And>t. t \<in> set (tags T) \<Longrightarrow>
      (\<not> emptyTag t \<and> quoted t \<in> quoted ` set (writable_tags T)) = writable t"
    using quoted_inj by (auto simp: writable_tags_def writable_def)
  have "filter (\<lambda>c. c \<in> quoted ` set (writable_tags T)) (selectFields_cols T) =
        map quoted (filter (\<lambda>t. \<not> emptyTag t \<and> quoted t \<in> quoted ` set (writable_tags T)) (tags T))"
    by (simp add: selectFields_cols_eq filter_map comp_def conj_commute)
  also have "\<dots> = map quoted (filter writable (tags T))"
    using iff by (metis (mono_tags, lifting) filter_cong)
  finally show ?thesis by (simp add: writable_tags_def)
qed

lemma fragments_eq:
  "r_selectFields (NewPostgresRepository db tableName T) =
     Join (map quoted (filter (\<lambda>t. \<not> emptyTag t) (tags T))) '', ''"
  "r_insertFields (NewPostgresRepository db tableName T) =
     Join (map quoted (writable_tags T @ stamp_tags T)) '', ''"
  "r_insertParams (NewPostgresRepository db tableName T) =
     Join (map (\<lambda>t. '':'' @ t) (writable_tags T @ stamp_tags T)) '', ''"
  "r_updateSetFields (NewPostgresRepository db tableName T) =
     Join (map (\<lambda>t. quoted t @ '' = :'' @ t) (''updated_at'' # writable_tags T)) '',''"
  by (simp_all only: NewPostgresRepository_def PostgresRepository.simps selectFields_def
      insertFields_def insertParams_def updateSetFields_def selectFields_cols_eq
      insertFields_cols_eq insertParams_cols_eq updateSetFields_cols_eq)

section \<open>The claims about the fragments\<close>

text \<open>
  C4, as stated: in every entity type the columns that two fragments share (in
  particular \<open>selectFields\<close> and \<open>insertFields\<close>) stand in the same relative order in both.
  It fails for an entity that declares \<open>created_at\<close> before the ordinary column \<open>name\<close>:
  the descriptor's \<open>selectFields\<close> is \<open>"created_at", "name"\<close>, in declaration order, and its
  \<open>insertFields\<close> is \<open>"name", "created_at"\<close>, with \<open>created_at\<close> moved to the end.
\<close>

theorem fragment_order_counterexample:
  \<open>r_selectFields (NewPostgresRepository Pool ''t'' stamp_first_entity) =
     ''"created_at", "name"'' \<and>
   r_insertFields (NewPostgresRepository Pool ''t'' stamp_first_entity) =
     ''"name", "created_at"'' \<and>
   \<not> same_relative_order (selectFields_cols stamp_first_entity)
        (insertFields_cols stamp_first_entity)\<close>
  by (simp add: NewPostgresRepository_def selectFields_def insertFields_def
      same_relative_order_def selectFields_cols_def insertFields_cols_def
      stamp_first_entity_def dq_def readOnlyTag_def readOnlyTags_def emptyTag_def
      emptyTags_def createdTag_def updatedTag_def)

text \<open>
  C4, amended: in the descriptor that \<open>NewPostgresRepository\<close> builds, \<open>selectFields\<close> is
  every annotated column in declaration order, joined with \<open>", "\<close>.  The writable
  columns (neither suppressed nor read-only) stand in declaration order in all four
  fragments, and they are the projection with the other columns left out, so their
  relative order is the same everywhere.  \<open>insertFields\<close> and \<open>insertParams\<close> end with
  \<open>created_at\<close> and then \<open>updated_at\<close>, when the type declares them, wherever it declares
  them, and \<open>updateSetFields\<close> starts with \<open>updated_at\<close>.  The same holds of the slices that
  the four functions hand to \<open>strings.Join\<close>.
\<close>

theorem fragment_order:
  "r_selectFields (NewPostgresRepository db tableName T) =
     Join (map quoted (filter (\<lambda>t. \<not> emptyTag t) (tags T))) '', '' \<and>
   r_insertFields (NewPostgresRepository db tableName T) =
     Join (map quoted (writable_tags T) @ map quoted (stamp_tags T)) '', '' \<and>
   r_insertParams (NewPostgresRepository db tableName T) =
     Join (map (\<lambda>t. '':'' @ t) (writable_tags T) @ map (\<lambda>t. '':'' @ t) (stamp_tags T)) '', '' \<and>
   r_updateSetFields (NewPostgresRepository db tableName T) =
     Join ((quoted ''updated_at'' @ '' = :updated_at'') #
           map (\<lambda>t. quoted t @ '' = :'' @ t) (writable_tags T)) '','' \<and>
   writable_tags T = filter (\<lambda>t. \<not> readOnlyTag t) (filter (\<lambda>t. \<not> emptyTag t) (tags T)) \<and>
   selectFields_cols T = map quoted (filter (\<lambda>t. \<not> emptyTag t) (tags T)) \<and>
   insertFields_cols T = map quoted (writable_tags T) @ map quoted (stamp_tags T) \<and>
   insertParams_cols T =
     map (\<lambda>t. '':'' @ t) (writable_tags T) @ map (\<lambda>t. '':'' @ t) (stamp_tags T) \<and>
   updateSetFields_cols T =
     (quoted ''updated_at'' @ '' = :updated_at'') #
       map (\<lambda>t. quoted t @ '' = :'' @ t) (writable_tags T) \<and>
   filter (\<lambda>c. c \<in> quoted ` set (writable_tags T)) (selectFields_cols T) =
     map quoted (writable_tags T)"
proof (intro conjI)
  show "r_selectFields (NewPostgresRepository db tableName T) =
     Join (map quoted (filter (\<lambda>t. \<not> emptyTag t) (tags T))) '', ''"
    by (rule fragments_eq)
  show "r_insertFields (NewPostgresRepository db tableName T) =
     Join (map quoted (writable_tags T) @ map quoted (stamp_tags T)) '', ''"
    by (simp add: fragments_eq)
  show "r_insertParams (NewPostgresRepository db tableName T) =
     Join (map (\<lambda>t. '':'' @ t) (writable_tags T) @ map (\<lambda>t. '':'' @ t) (stamp_tags T)) '', ''"
    by (simp add: fragments_eq)
  show "r_updateSetFields (NewPostgresRepository db tableName T) =
     Join ((quoted ''updated_at'' @ '' = :updated_at'') #
           map (\<lambda>t. quoted t @ '' = :'' @ t) (writable_tags T)) '',''"
    by (simp add: fragments_eq)
  show "writable_tags T = filter (\<lambda>t. \<not> readOnlyTag t) (filter (\<lambda>t. \<not> emptyTag t) (tags T))"
    by (simp add: writable_tags_def) (rule filter_cong, auto simp: writable_def)
  show "selectFields_cols T = map quoted (filter (\<lambda>t. \<not> emptyTag t) (tags T))"
    by (rule selectFields_cols_eq)
  show "insertFields_cols T = map quoted (writable_tags T) @ map quoted (stamp_tags T)"
    by (simp add: insertFields_cols_eq)
  show "insertParams_cols T =
      map (\<lambda>t. '':'' @ t) (writable_tags T) @ map (\<lambda>t. '':'' @ t) (stamp_tags T)"
    by (simp add: insertParams_cols_eq)
  show "updateSetFields_cols T =
      (quoted ''updated_at'' @ '' = :updated_at'') #
        map (\<lambda>t. quoted t @ '' = :'' @ t) (writable_tags T)"
    by (simp add: updateSetFields_cols_eq)
  show "filter (\<lambda>c. c \<in> quoted ` set (writable_tags T)) (selectFields_cols T) =
      map quoted (writable_tags T)"
    by (rule filter_select_writable)
qed

text \<open>
  C5, as stated: the descriptor of the entity with the columns \<open>id\<close> (read-only), \<open>name\<close>,
  \<open>created_at\<close>, \<open>updated_at\<close> holds the four fragments written without any blank.  The
  fragments the code builds have blanks: the lists are joined with a comma and a blank,
  and an assignment is written with blanks around the equals sign.
\<close>

theorem scenario_fragments_counterexample:
  \<open>\<not> (r_selectFields (NewPostgresRepository Pool ''t'' scenario_entity) =
          ''"id","name","created_at","updated_at"'' \<and>
        r_insertFields (NewPostgresRepository Pool ''t'' scenario_entity) =
          ''"name","created_at","updated_at"'' \<and>
        r_insertParams (NewPostgresRepository Pool ''t'' scenario_entity) =
          '':name,:created_at,:updated_at'' \<and>
        r_updateSetFields (NewPostgresRepository Pool ''t'' scenario_entity) =
          ''"updated_at"=:updated_at,"name"=:name'')\<close>
  by (simp add: NewPostgresRepository_def selectFields_def selectFields_cols_def
      scenario_entity_def dq_def)

text \<open>
  C5, amended: the descriptor of that entity holds the same columns in the same order,
  in the code's spelling: \<open>selectFields\<close>, \<open>insertFields\<close> and \<open>insertParams\<close> are joined with
  \<open>", "\<close>, \<open>updateSetFields\<close> with \<open>","\<close>, and each assignment reads \<open>"col" = :col\<close>.
\<close>

theorem scenario_fragments:
  \<open>r_selectFields (NewPostgresRepository db tableName scenario_entity) =
     ''"id", "name", "created_at", "updated_at"'' \<and>
   r_insertFields (NewPostgresRepository db tableName scenario_entity) =
     ''"name", "created_at", "updated_at"'' \<and>
   r_insertParams (NewPostgresRepository db tableName scenario_entity) =
     '':name, :created_at, :updated_at'' \<and>
   r_updateSetFields (NewPostgresRepository db tableName scenario_entity) =
     ''"updated_at" = :updated_at,"name" = :name''\<close>
  by (simp add: NewPostgresRepository_def selectFields_def selectFields_cols_def
      insertFields_def insertFields_cols_def insertParams_def insertParams_cols_def
      updateSetFields_def updateSetFields_cols_def scenario_entity_def dq_def
      readOnlyTag_def readOnlyTags_def emptyTag_def emptyTags_def createdTag_def
      updatedTag_def)

text \<open>
  C6: for every entity type, the descriptor's \<open>insertFields\<close> and \<open>insertParams\<close> are the
  \<open>", "\<close>-joined images of one list of names, the writable columns followed by the time
  stamps: the \<open>i\<close>-th column is \<open>"name"\<close> where the \<open>i\<close>-th parameter is \<open>:name\<close>, so the two
  have the same number of entries; and \<open>selectFields\<close>, the \<open>", "\<close>-joined list of every
  annotated column, has at least as many columns as \<open>insertFields\<close>.  The same holds of
  the slices that the three functions hand to \<open>strings.Join\<close>.
\<close>

theorem insert_fragments_correspond:
  "r_insertFields (NewPostgresRepository db tableName T) =
     Join (map quoted (writable_tags T @ stamp_tags T)) '', '' \<and>
   r_insertParams (NewPostgresRepository db tableName T) =
     Join (map (\<lambda>t. '':'' @ t) (writable_tags T @ stamp_tags T)) '', '' \<and>
   r_selectFields (NewPostgresRepository db tableName T) =
     Join (map quoted (filter (\<lambda>t. \<not> emptyTag t) (tags T))) '', '' \<and>
   length (map quoted (writable_tags T @ stamp_tags T)) =
     length (map (\<lambda>t. '':'' @ t) (writable_tags T @ stamp_tags T)) \<and>
   length (map quoted (writable_tags T @ stamp_tags T)) \<le>
     length (map quoted (filter (\<lambda>t. \<not> emptyTag t) (tags T))) \<and>
   insertFields T = Join (insertFields_cols T) '', '' \<and>
   insertParams T = Join (insertParams_cols T) '', '' \<and>
   selectFields T = Join (selectFields_cols T) '', '' \<and>
   length (insertFields_cols T) = length (insertParams_cols T) \<and>
   insertFields_cols T = map quoted (writable_tags T @ stamp_tags T) \<and>
   insertParams_cols T = map (\<lambda>t. '':'' @ t) (writable_tags T @ stamp_tags T) \<and>
   length (insertFields_cols T) \<le> length (selectFields_cols T)"
proof -
  have l: "length (insertFields_cols T) \<le> length (selectFields_cols T)"
    by (rule length_insert_le_select)
  hence l': "length (map quoted (writable_tags T @ stamp_tags T)) \<le>
     length (map quoted (filter (\<lambda>t. \<not> emptyTag t) (tags T)))"
    by (simp only: insertFields_cols_eq selectFields_cols_eq)
  show ?thesis
    using l l'
    by (simp add: fragments_eq insertFields_cols_eq insertParams_cols_eq selectFields_cols_eq
        insertFields_def insertParams_def selectFields_def)
qed

section \<open>The statement template\<close>

lemma Join_Cons: "xs \<noteq> [] \<Longrightarrow> Join (x # xs) sep = x @ sep @ Join xs sep"
  by (cases xs) auto

lemma concat_sep_Join:
  "xs \<noteq> [] \<Longrightarrow> concat (map (\<lambda>x. x @ sep) xs) = Join xs sep @ sep"
proof (induction xs)
  case Nil thus ?case by simp
next
  case (Cons x xs)
  show ?case
  proof (cases "xs = []")
    case True thus ?thesis by simp
  next
    case False
    with Cons show ?thesis by (simp add: Join_Cons)
  qed
qed

lemma TrimSuffix_append: "TrimSuffix (a @ suf) suf = a"
  by (simp add: TrimSuffix_def HasSuffix_def)

lemma writeStmt_cols_step:
  "k < C \<Longrightarrow>
   writeStmt_cols (int i) (int C) (int k) str =
     writeStmt_cols (int i) (int C) (int (Suc k))
       (if Suc k < C then str @ placeholder C i k @ '','' else str @ placeholder C i k)"
  by (subst writeStmt_cols.simps) (auto simp: placeholder_def ac_simps)

lemma writeStmt_cols_done: "writeStmt_cols i (int C) (int C) str = str"
  by (subst writeStmt_cols.simps) simp

lemma writeStmt_cols_eq:
  "k < C \<Longrightarrow>
   writeStmt_cols (int i) (int C) (int k) str =
     str @ Join (map (placeholder C i) [k..<C]) '',''"
proof (induction "C - k" arbitrary: k str)
  case 0 thus ?case by simp
next
  case (Suc m)
  have upt: "[k..<C] = k # [Suc k..<C]" using Suc.prems by (simp add: upt_conv_Cons)
  show ?case
  proof (cases "Suc k < C")
    case True
    have m: "m = C - Suc k" using Suc.hyps(2) by linarith
    have ne2: "map (placeholder C i) [Suc k..<C] \<noteq> []" using True by simp
    have "writeStmt_cols (int i) (int C) (int k) str =
          writeStmt_cols (int i) (int C) (int (Suc k)) (str @ placeholder C i k @ '','')"
      using writeStmt_cols_step[OF Suc.prems, of i str] True by simp
    also have "\<dots> = (str @ placeholder C i k @ '','') @ Join (map (placeholder C i) [Suc k..<C]) '',''"
      using Suc.hyps(1)[OF m True] .
    also have "\<dots> = str @ Join (placeholder C i k # map (placeholder C i) [Suc k..<C]) '',''"
      using ne2 by (simp add: Join_Cons)
    finally show ?thesis by (simp only: upt list.map)
  next
    case False
    hence kC: "Suc k = C" using Suc.prems by linarith
    have "writeStmt_cols (int i) (int C) (int k) str =
          writeStmt_cols (int i) (int C) (int (Suc k)) (str @ placeholder C i k)"
      using writeStmt_cols_step[OF Suc.prems, of i str] False by simp
    also have "\<dots> = str @ placeholder C i k"
      unfolding kC by (rule writeStmt_cols_done)
    finally show ?thesis using kC by (simp add: upt)
  qed
qed

lemma writeStmt_cols_row:
  "writeStmt_cols (int i) (int C) 0 (str @ ''('') @ ''),'' = str @ row_group C i @ '',''"
proof (cases "C = 0")
  case True
  thus ?thesis using writeStmt_cols_done[of "int i" 0 "str @ ''(''"] by (simp add: row_group_def)
next
  case False
  hence "0 < C" by simp
  from writeStmt_cols_eq[OF this, of i "str @ ''(''"] show ?thesis
    by (simp add: row_group_def)
qed

lemma writeStmt_rows_step:
  "i < W \<Longrightarrow>
   writeStmt_rows (int W) (int C) (int i) str =
     writeStmt_rows (int W) (int C) (int (Suc i)) (str @ row_group C i @ '','')"
proof -
  assume lt: "i < W"
  have "writeStmt_rows (int W) (int C) (int i) str =
        writeStmt_rows (int W) (int C) (int i + 1)
          (writeStmt_cols (int i) (int C) 0 (str @ ''('') @ ''),'')"
    using lt by (subst writeStmt_rows.simps) simp
  thus ?thesis by (simp add: writeStmt_cols_row ac_simps)
qed

lemma writeStmt_rows_eq:
  "i \<le> W \<Longrightarrow>
   writeStmt_rows (int W) (int C) (int i) str =
     str @ concat (map (\<lambda>j. row_group C j @ '','') [i..<W])"
proof (induction "W - i" arbitrary: i str)
  case 0
  hence "i = W" by simp
  thus ?case by (subst writeStmt_rows.simps) simp
next
  case (Suc m)
  hence lt: "i < W" by linarith
  have m: "m = W - Suc i" using Suc.hyps(2) by linarith
  have "writeStmt_rows (int W) (int C) (int i) str =
        writeStmt_rows (int W) (int C) (int (Suc i)) (str @ row_group C i @ '','')"
    using lt by (rule writeStmt_rows_step)
  also have "\<dots> = (str @ row_group C i @ '','') @ concat (map (\<lambda>j. row_group C j @ '','') [Suc i..<W])"
    using Suc.hyps(1)[OF m] lt by simp
  finally show ?case using lt by (simp add: upt_conv_Cons)
qed

text \<open>
  C2: for a batch width \<open>W \<ge> 1\<close> and a column count \<open>C \<ge> 1\<close>, \<open>writeStmt\<close> gives the prefix
  followed by \<open>W\<close> row groups joined by commas, the group of row \<open>i\<close> being the
  placeholders \<open>$(i*C+k+1)\<close> for \<open>k = 0, ..., C-1\<close>, joined by commas, in parentheses.
  For \<open>W = 2\<close> and \<open>C = 3\<close> the groups are \<open>($1,$2,$3)\<close> and \<open>($4,$5,$6)\<close>.
\<close>

theorem writeStmt_template:
  assumes "1 \<le> W" and "1 \<le> C"
  shows "writeStmt W C prefix = stmt_template (nat W) (nat C) prefix"
proof -
  define w c where "w = nat W" and "c = nat C"
  have W: "W = int w" and C: "C = int c" and w: "0 < w"
    using assms by (simp_all add: w_def c_def)
  have ne: "map (row_group c) [0..<w] \<noteq> []" using w by simp
  have "writeStmt_rows (int w) (int c) 0 prefix =
        prefix @ concat (map (\<lambda>x. x @ '','') (map (row_group c) [0..<w]))"
    using writeStmt_rows_eq[of 0 w c prefix] by (simp add: comp_def)
  also have "\<dots> = (prefix @ Join (map (row_group c) [0..<w]) '','') @ '',''"
    using concat_sep_Join[OF ne] by simp
  finally show ?thesis
    unfolding writeStmt_def W C stmt_template_def by (simp only: TrimSuffix_append nat_int)
qed

theorem writeStmt_template_witness:
  "(1::int) \<le> 2 \<and> (1::int) \<le> 3 \<and>
   writeStmt 2 3 ''INSERT INTO t (a, b, c) VALUES '' =
     ''INSERT INTO t (a, b, c) VALUES ($1,$2,$3),($4,$5,$6)''"
proof -
  have "stmt_template (nat 2) (nat 3) ''INSERT INTO t (a, b, c) VALUES '' =
        ''INSERT INTO t (a, b, c) VALUES ($1,$2,$3),($4,$5,$6)''"
    by code_simp
  thus ?thesis
    using writeStmt_template[of 2 3 "''INSERT INTO t (a, b, c) VALUES ''"] by simp
qed


section \<open>The transaction manager and the router\<close>

text \<open>
  What \<open>RunInTransaction\<close> returns once the transaction has begun and the unit of work
  has returned: the error of the unit of work, whatever \<open>Commit\<close> answers.
\<close>

lemma RunInTransaction_returns_work_error:
  assumes "beginx drv h = Inr tx"
    and "f (newContext ctx (Tx tx)) (h @ [(Beginx, Begun (Inr tx))]) = (Returns err, h2)"
  shows "fst (RunInTransaction drv ctx f h) = Returns err"
  using assms by (simp add: RunInTransaction_def Let_def split: prod.splits)

lemma RunInTransaction_panic:
  assumes "beginx drv h = Inr tx"
    and "f (newContext ctx (Tx tx)) (h @ [(Beginx, Begun (Inr tx))]) = (Panics p, h2)"
  shows "RunInTransaction drv ctx f h =
           (Panics p, h2 @ [(Rollback tx, Err (answer drv h2 (Rollback tx)))])"
  using assms by (simp add: RunInTransaction_def call_def Let_def)

text \<open>
  C3 says that every error, the failure of the commit included, reaches the caller.
  Here the transaction begins, the unit of work returns \<open>nil\<close>, and \<open>Commit\<close> fails: the
  commit is issued and its error is in the log, and \<open>RunInTransaction\<close> returns \<open>nil\<close>.
\<close>

theorem RunInTransaction_commit_error_lost:
  "RunInTransaction commit_fails \<lparr>txdb = None\<rparr> idle_work [] =
     (Returns None,
      [(Beginx, Begun (Inr 1)), (Commit 1, Err (Some ''commit failed''))])"
  by (simp add: RunInTransaction_def commit_fails_def idle_work_def call_def Let_def)

lemma resolve_eq: "resolve r ctx '' FOR UPDATE'' = (executor r ctx, lockingSuffix ctx)"
  by (simp add: resolve_def executor_def lockingSuffix_def split: option.splits)

lemma resolve_empty: "resolve r ctx '''' = (executor r ctx, '''')"
  by (simp add: resolve_def executor_def split: option.splits)

text \<open>
  C8, amended: \<open>Single\<close>, \<open>Where\<close>, \<open>SelectAll\<close> and \<open>CustomAnyQuery\<close> run on the transaction
  handle with \<open>FOR UPDATE\<close> in their SQL when the context carries one (at the end of the
  statement, in \<open>Single\<close> before \<open>LIMIT 1\<close>), and on the pool with an empty suffix
  otherwise.  \<open>Single\<close>, \<open>Where\<close> and \<open>SelectAll\<close> prepare their statement on that executor
  and, when the preparation succeeds, run it there with the argument (\<open>Get\<close> in \<open>Single\<close>,
  \<open>Select\<close> in the other two); they issue nothing else.  \<open>CustomQuery\<close> runs on the same
  executor and sends the caller's statement as it is, in a transaction too.
\<close>

theorem read_routing:
  "issued h (snd (Single drv r ctx whr arg h)) =
     (if answer drv h (PrepareNamed (executor r ctx)
            (''SELECT '' @ r_selectFields r @ '' FROM '' @ r_tableName r @ '' WHERE '' @ whr @
             '' '' @ lockingSuffix ctx @ '' LIMIT 1'')) = None
      then [PrepareNamed (executor r ctx)
              (''SELECT '' @ r_selectFields r @ '' FROM '' @ r_tableName r @ '' WHERE '' @ whr @
               '' '' @ lockingSuffix ctx @ '' LIMIT 1''),
            NamedGet (executor r ctx)
              (''SELECT '' @ r_selectFields r @ '' FROM '' @ r_tableName r @ '' WHERE '' @ whr @
               '' '' @ lockingSuffix ctx @ '' LIMIT 1'') arg]
      else [PrepareNamed (executor r ctx)
              (''SELECT '' @ r_selectFields r @ '' FROM '' @ r_tableName r @ '' WHERE '' @ whr @
               '' '' @ lockingSuffix ctx @ '' LIMIT 1'')]) \<and>
   issued h (snd (Where drv r ctx whr arg h)) =
     (if answer drv h (PrepareNamed (executor r ctx)
            (''SELECT '' @ r_selectFields r @ '' FROM '' @ r_tableName r @ '' WHERE '' @ whr @
             lockingSuffix ctx)) = None
      then [PrepareNamed (executor r ctx)
              (''SELECT '' @ r_selectFields r @ '' FROM '' @ r_tableName r @ '' WHERE '' @ whr @
               lockingSuffix ctx),
            NamedSelect (executor r ctx)
              (''SELECT '' @ r_selectFields r @ '' FROM '' @ r_tableName r @ '' WHERE '' @ whr @
               lockingSuffix ctx) arg]
      else [PrepareNamed (executor r ctx)
              (''SELECT '' @ r_selectFields r @ '' FROM '' @ r_tableName r @ '' WHERE '' @ whr @
               lockingSuffix ctx)]) \<and>
   issued h (snd (SelectAll drv r ctx orderBy limit arg h)) =
     (if answer drv h (PrepareNamed (executor r ctx)
            (''SELECT '' @ r_selectFields r @ '' FROM '' @ r_tableName r @ '' ORDER BY '' @
             (if orderBy = '''' then ''ID'' else orderBy) @ '' LIMIT '' @ limit @ '' '' @
             lockingSuffix ctx)) = None
      then [PrepareNamed (executor r ctx)
              (''SELECT '' @ r_selectFields r @ '' FROM '' @ r_tableName r @ '' ORDER BY '' @
               (if orderBy = '''' then ''ID'' else orderBy) @ '' LIMIT '' @ limit @ '' '' @
               lockingSuffix ctx),
            NamedSelect (executor r ctx)
              (''SELECT '' @ r_selectFields r @ '' FROM '' @ r_tableName r @ '' ORDER BY '' @
               (if orderBy = '''' then ''ID'' else orderBy) @ '' LIMIT '' @ limit @ '' '' @
               lockingSuffix ctx) arg]
      else [PrepareNamed (executor r ctx)
              (''SELECT '' @ r_selectFields r @ '' FROM '' @ r_tableName r @ '' ORDER BY '' @
               (if orderBy = '''' then ''ID'' else orderBy) @ '' LIMIT '' @ limit @ '' '' @
               lockingSuffix ctx)]) \<and>
   issued h (snd (CustomAnyQuery drv r ctx stmt arg h)) =
     [QueryxArray (executor r ctx) (stmt @ lockingSuffix ctx) arg] \<and>
   issued h (snd (CustomQuery drv r ctx stmt args h)) =
     [Queryx (executor r ctx) stmt args]"
proof (intro conjI)
  show "issued h (snd (Single drv r ctx whr arg h)) =
     (if answer drv h (PrepareNamed (executor r ctx)
            (''SELECT '' @ r_selectFields r @ '' FROM '' @ r_tableName r @ '' WHERE '' @ whr @
             '' '' @ lockingSuffix ctx @ '' LIMIT 1'')) = None
      then [PrepareNamed (executor r ctx)
              (''SELECT '' @ r_selectFields r @ '' FROM '' @ r_tableName r @ '' WHERE '' @ whr @
               '' '' @ lockingSuffix ctx @ '' LIMIT 1''),
            NamedGet (executor r ctx)
              (''SELECT '' @ r_selectFields r @ '' FROM '' @ r_tableName r @ '' WHERE '' @ whr @
               '' '' @ lockingSuffix ctx @ '' LIMIT 1'') arg]
      else [PrepareNamed (executor r ctx)
              (''SELECT '' @ r_selectFields r @ '' FROM '' @ r_tableName r @ '' WHERE '' @ whr @
               '' '' @ lockingSuffix ctx @ '' LIMIT 1'')])"
    by (simp add: Single_def resolve_eq issued_def call_def Let_def split: option.splits)
  show "issued h (snd (Where drv r ctx whr arg h)) =
     (if answer drv h (PrepareNamed (executor r ctx)
            (''SELECT '' @ r_selectFields r @ '' FROM '' @ r_tableName r @ '' WHERE '' @ whr @
             lockingSuffix ctx)) = None
      then [PrepareNamed (executor r ctx)
              (''SELECT '' @ r_selectFields r @ '' FROM '' @ r_tableName r @ '' WHERE '' @ whr @
               lockingSuffix ctx),
            NamedSelect (executor r ctx)
              (''SELECT '' @ r_selectFields r @ '' FROM '' @ r_tableName r @ '' WHERE '' @ whr @
               lockingSuffix ctx) arg]
      else [PrepareNamed (executor r ctx)
              (''SELECT '' @ r_selectFields r @ '' FROM '' @ r_tableName r @ '' WHERE '' @ whr @
               lockingSuffix ctx)])"
    by (simp add: Where_def resolve_eq issued_def call_def Let_def split: option.splits)
  show "issued h (snd (SelectAll drv r ctx orderBy limit arg h)) =
     (if answer drv h (PrepareNamed (executor r ctx)
            (''SELECT '' @ r_selectFields r @ '' FROM '' @ r_tableName r @ '' ORDER BY '' @
             (if orderBy = '''' then ''ID'' else orderBy) @ '' LIMIT '' @ limit @ '' '' @
             lockingSuffix ctx)) = None
      then [PrepareNamed (executor r ctx)
              (''SELECT '' @ r_selectFields r @ '' FROM '' @ r_tableName r @ '' ORDER BY '' @
               (if orderBy = '''' then ''ID'' else orderBy) @ '' LIMIT '' @ limit @ '' '' @
               lockingSuffix ctx),
            NamedSelect (executor r ctx)
              (''SELECT '' @ r_selectFields r @ '' FROM '' @ r_tableName r @ '' ORDER BY '' @
               (if orderBy = '''' then ''ID'' else orderBy) @ '' LIMIT '' @ limit @ '' '' @
               lockingSuffix ctx) arg]
      else [PrepareNamed (executor r ctx)
              (''SELECT '' @ r_selectFields r @ '' FROM '' @ r_tableName r @ '' ORDER BY '' @
               (if orderBy = '''' then ''ID'' else orderBy) @ '' LIMIT '' @ limit @ '' '' @
               lockingSuffix ctx)])"
    by (simp add: SelectAll_def resolve_eq issued_def call_def Let_def split: option.splits)
  show "issued h (snd (CustomAnyQuery drv r ctx stmt arg h)) =
     [QueryxArray (executor r ctx) (stmt @ lockingSuffix ctx) arg]"
    by (simp add: CustomAnyQuery_def resolve_eq issued_def Let_def)
  show "issued h (snd (CustomQuery drv r ctx stmt args h)) =
     [Queryx (executor r ctx) stmt args]"
    by (simp add: CustomQuery_def resolve_empty issued_def Let_def)
qed

text \<open>
  C8, as stated, for \<open>CustomQuery\<close>: with a transaction handle in the context the
  statement would be sent with \<open>FOR UPDATE\<close> appended.  It is sent on the handle, as
  the caller wrote it.
\<close>

theorem CustomQuery_lock_counterexample:
  "txFromContext \<lparr>txdb = Some (Tx 1)\<rparr> = Some (Tx 1) \<and>
   issued [] (snd (CustomQuery commit_fails (NewPostgresRepository Pool ''t'' scenario_entity)
        \<lparr>txdb = Some (Tx 1)\<rparr> ''SELECT 1'' [] [])) = [Queryx (Tx 1) ''SELECT 1'' []] \<and>
   issued [] (snd (CustomQuery commit_fails (NewPostgresRepository Pool ''t'' scenario_entity)
        \<lparr>txdb = Some (Tx 1)\<rparr> ''SELECT 1'' [] [])) \<noteq>
     [Queryx (Tx 1) (''SELECT 1'' @ '' FOR UPDATE'') []]"
  by (simp add: CustomQuery_def resolve_def txFromContext_def issued_def Let_def)

text \<open>
  C9: with a \<open>nil\<close> argument \<open>PermanentDelete\<close> returns its validation error and the log is
  unchanged, so nothing was prepared or executed; with any other argument it prepares
  \<open>DELETE FROM <table> WHERE <pred>\<close> on the executor and, when that succeeds, executes
  it with the argument.
\<close>

theorem PermanentDelete_guard:
  "PermanentDelete drv r ctx whr VNil h =
     (Some ''There Must be Where condition for Deletion Process'', h) \<and>
   issued h (snd (PermanentDelete drv r ctx whr arg h)) =
     (if arg = VNil then []
      else if answer drv h (PrepareNamed (executor r ctx)
                ([CHR 0x0A, CHR 0x09, CHR 0x09] @ ''DELETE FROM '' @ r_tableName r @
                 '' WHERE '' @ whr)) = None
      then [PrepareNamed (executor r ctx)
              ([CHR 0x0A, CHR 0x09, CHR 0x09] @ ''DELETE FROM '' @ r_tableName r @
               '' WHERE '' @ whr),
            NamedExec (executor r ctx)
              ([CHR 0x0A, CHR 0x09, CHR 0x09] @ ''DELETE FROM '' @ r_tableName r @
               '' WHERE '' @ whr) arg]
      else [PrepareNamed (executor r ctx)
              ([CHR 0x0A, CHR 0x09, CHR 0x09] @ ''DELETE FROM '' @ r_tableName r @
               '' WHERE '' @ whr)])"
  by (simp add: PermanentDelete_def resolve_empty issued_def call_def Let_def
      split: option.splits)

section \<open>Bulk insert: what one element binds\<close>




















section \<open>Bulk insert: the batches\<close>























lemma ceil_div_100: "((N::nat) + 99) div 100 = N div 100 + (if N mod 100 = 0 then 0 else 1)"
proof -
  define q r where "q = N div 100" and "r = N mod 100"
  have N: "N = r + 100 * q" and r: "r < 100" by (simp_all add: q_def r_def)
  have "(N + 99) div 100 = (r + 99 + 100 * q) div 100" using N by simp
  also have "\<dots> = (r + 99) div 100 + q" by simp
  also have "(r + 99) div 100 = (if r = 0 then 0 else 1)"
  proof (cases "r = 0")
    case True thus ?thesis by simp
  next
    case False
    hence "(r + 99) div 100 = 1" using r by (intro div_nat_eqI) simp_all
    thus ?thesis using False by simp
  qed
  finally show ?thesis by (simp add: q_def r_def)
qed

lemma length_batches: "length (batches N) = (N + 99) div 100"
  by (simp add: batches_def ceil_div_100)








section \<open>The integer coercion\<close>

















end
